theory Spec2Isabelle
  imports Main "HOL-Library.Log_Nat"
begin

section \<open>The Python values the SCORM code computes with\<close>

text \<open>
  The SCORM application (\<^verbatim>\<open>src/scorm/models.py\<close>, \<^verbatim>\<open>src/scorm/views.py\<close>) stores scores
  in Django \<^verbatim>\<open>FloatField\<close>s, parses them with Python's \<^verbatim>\<open>float()\<close> and prints them with
  \<^verbatim>\<open>str()\<close>. A Python float is an IEEE 754 double: a finite double is carried as the
  rational it denotes, next to the negative zero, the two infinities and NaN. Results of
  arithmetic and of parsing are rounded to the nearest double, ties to even.
\<close>

datatype pyfloat = Fin rat | NegZero | PosInf | NegInf | NaN

datatype pyexn =
    ZeroDivisionError | ValueError | TypeError | OverflowError
  | MultipleObjectsReturned | IntegrityError

definition pow2 :: "int \<Rightarrow> rat" where
  "pow2 e = (if 0 \<le> e then 2 ^ nat e else 1 / 2 ^ nat (- e))"

definition ilog2 :: "rat \<Rightarrow> int" where
  \<comment> \<open>for \<open>0 < q\<close>: the \<open>e\<close> with \<open>2 ^ e \<le> q < 2 ^ (e + 1)\<close>\<close>
  "ilog2 q = (case quotient_of q of (a, b) \<Rightarrow>
     (let e = bitlen a - bitlen b in if pow2 e \<le> q then e else e - 1))"

definition round_half_even :: "rat \<Rightarrow> int" where
  "round_half_even q = (let f = \<lfloor>q\<rfloor>; r = q - of_int f in
     if r < 1 / 2 then f else if 1 / 2 < r then f + 1 else if even f then f else f + 1)"

definition signed_inf :: "bool \<Rightarrow> pyfloat" where
  "signed_inf neg = (if neg then NegInf else PosInf)"

definition signed_zero :: "bool \<Rightarrow> pyfloat" where
  "signed_zero neg = (if neg then NegZero else Fin 0)"

definition round_double :: "rat \<Rightarrow> pyfloat" where
  \<comment> \<open>53 significant bits, exponents from \<open>-1022\<close> (subnormals below) to \<open>1023\<close>\<close>
  "round_double q = (if q = 0 then Fin 0 else
     (let e = ilog2 \<bar>q\<bar> in
      if 1024 \<le> e then signed_inf (q < 0)
      else (let ulp = pow2 (max e (- 1022) - 52); n = round_half_even (q / ulp) in
            if e = 1023 \<and> \<bar>n\<bar> = 2 ^ 53 then signed_inf (q < 0)
            else if n = 0 then signed_zero (q < 0)
            else Fin (of_int n * ulp))))"

fun float_is_zero :: "pyfloat \<Rightarrow> bool" where
  "float_is_zero (Fin q) = (q = 0)"
| "float_is_zero NegZero = True"
| "float_is_zero _ = False"

fun float_is_inf :: "pyfloat \<Rightarrow> bool" where
  "float_is_inf PosInf = True"
| "float_is_inf NegInf = True"
| "float_is_inf _ = False"

fun float_neg :: "pyfloat \<Rightarrow> bool" where
  "float_neg (Fin q) = (q < 0)"
| "float_neg NegZero = True"
| "float_neg NegInf = True"
| "float_neg _ = False"

fun float_rat :: "pyfloat \<Rightarrow> rat" where
  "float_rat (Fin q) = q"
| "float_rat _ = 0"

definition float_truthy :: "pyfloat \<Rightarrow> bool" where
  \<comment> \<open>\<^verbatim>\<open>bool(x)\<close> for a float: \<^verbatim>\<open>x != 0.0\<close>, so NaN is true\<close>
  "float_truthy x = (\<not> float_is_zero x)"

definition float_truediv :: "pyfloat \<Rightarrow> pyfloat \<Rightarrow> pyexn + pyfloat" where
  \<comment> \<open>\<^verbatim>\<open>a / b\<close> on floats: Python raises on a zero divisor, IEEE 754 otherwise\<close>
  "float_truediv a b =
     (if float_is_zero b then Inl ZeroDivisionError
      else if a = NaN \<or> b = NaN then Inr NaN
      else if float_is_inf a then
        (if float_is_inf b then Inr NaN else Inr (signed_inf (float_neg a \<noteq> float_neg b)))
      else if float_is_inf b \<or> float_is_zero a then
        Inr (signed_zero (float_neg a \<noteq> float_neg b))
      else Inr (round_double (float_rat a / float_rat b)))"

definition float_mul :: "pyfloat \<Rightarrow> pyfloat \<Rightarrow> pyfloat" where
  "float_mul a b =
     (if a = NaN \<or> b = NaN then NaN
      else if float_is_inf a \<or> float_is_inf b then
        (if float_is_zero a \<or> float_is_zero b then NaN
         else signed_inf (float_neg a \<noteq> float_neg b))
      else if float_is_zero a \<or> float_is_zero b then
        signed_zero (float_neg a \<noteq> float_neg b)
      else round_double (float_rat a * float_rat b))"

text \<open>
  Python compares a float with an int, and a float with a float, by their exact values;
  every comparison with NaN is false.
\<close>

datatype pynum = NInt int | NFloat pyfloat

fun num_key :: "pynum \<Rightarrow> (int \<times> rat) option" where
  \<comment> \<open>the place of a number in the order: \<open>-inf\<close>, the finite values, \<open>inf\<close>; none for NaN\<close>
  "num_key (NInt n) = Some (0, of_int n)"
| "num_key (NFloat (Fin q)) = Some (0, q)"
| "num_key (NFloat NegZero) = Some (0, 0)"
| "num_key (NFloat PosInf) = Some (1, 0)"
| "num_key (NFloat NegInf) = Some (- 1, 0)"
| "num_key (NFloat NaN) = None"

definition num_gt :: "pynum \<Rightarrow> pynum \<Rightarrow> bool" where
  \<comment> \<open>\<^verbatim>\<open>a > b\<close>\<close>
  "num_gt a b =
     (case num_key a of
        None \<Rightarrow> False
      | Some (ka, qa) \<Rightarrow>
          (case num_key b of
             None \<Rightarrow> False
           | Some (kb, qb) \<Rightarrow> kb < ka \<or> (kb = ka \<and> qb < qa)))"

definition num_ge :: "pynum \<Rightarrow> pynum \<Rightarrow> bool" where
  \<comment> \<open>\<^verbatim>\<open>a >= b\<close>\<close>
  "num_ge a b =
     (case num_key a of
        None \<Rightarrow> False
      | Some (ka, qa) \<Rightarrow>
          (case num_key b of
             None \<Rightarrow> False
           | Some (kb, qb) \<Rightarrow> kb < ka \<or> (kb = ka \<and> qb \<le> qa)))"

section \<open>The data model of \<^verbatim>\<open>models.py\<close>\<close>

text \<open>
  \<^verbatim>\<open>ScormPackage\<close> and \<^verbatim>\<open>ScormAttempt\<close> with the fields the modelled functions read or
  write. Foreign keys are the key of the row they point at, timestamps are counted in
  clock ticks, a \<^verbatim>\<open>timedelta\<close> is its normalised triple of days, seconds and microseconds.
\<close>

datatype timedelta = Timedelta int nat nat

record scorm_package =
  pkg_id :: nat
  course_id :: nat
  title :: string
  slug :: string
  version :: string
  package_file :: string
  extracted_path :: string
  entry_point :: string
  status :: string
  error_message :: string
  allow_multiple_attempts :: bool
  passing_score :: int
  created_at :: nat

record scorm_attempt =
  attempt_id :: nat
  package_id :: nat
  user_id :: nat
  started_at :: nat
  last_accessed :: nat
  completed_at :: "nat option"
  lesson_status :: string
  score_raw :: "pyfloat option"
  score_min :: pyfloat
  score_max :: pyfloat
  score_scaled :: "pyfloat option"
  progress_measure :: pyfloat
  total_time :: "timedelta option"
  session_time :: "timedelta option"
  suspend_data :: string
  lesson_location :: string
  exit_mode :: string
  credit :: string
  entry :: string

definition new_attempt :: "nat \<Rightarrow> nat \<Rightarrow> nat \<Rightarrow> nat \<Rightarrow> scorm_attempt" where
  \<comment> \<open>a row with the field defaults of \<^verbatim>\<open>ScormAttempt\<close>; \<^verbatim>\<open>auto_now_add\<close> and \<^verbatim>\<open>auto_now\<close>
      stamp both times\<close>
  "new_attempt aid pid uid now =
     \<lparr> attempt_id = aid, package_id = pid, user_id = uid,
       started_at = now, last_accessed = now, completed_at = None,
       lesson_status = ''not_attempted'',
       score_raw = None, score_min = Fin 0, score_max = Fin 100, score_scaled = None,
       progress_measure = Fin 0, total_time = None, session_time = None,
       suspend_data = [], lesson_location = [], exit_mode = [],
       credit = ''credit'', entry = ''ab-initio'' \<rparr>"

subsection \<open>\<^verbatim>\<open>ScormAttempt.is_passed\<close> and \<^verbatim>\<open>ScormAttempt.get_percentage_score\<close>\<close>

text \<open>
  \<^verbatim>\<open>self.package\<close> is passed as the first argument. A \<^verbatim>\<open>ZeroDivisionError\<close> of the division
  would leave the function as \<open>Inl\<close>.
\<close>

definition percent_of :: "pyfloat \<Rightarrow> pyfloat \<Rightarrow> pyexn + pynum" where
  \<comment> \<open>\<^verbatim>\<open>(raw / max) * 100\<close>\<close>
  "percent_of raw mx =
     (case float_truediv raw mx of
        Inl e \<Rightarrow> Inl e
      | Inr d \<Rightarrow> Inr (NFloat (float_mul d (Fin 100))))"

definition is_passed :: "scorm_package \<Rightarrow> scorm_attempt \<Rightarrow> pyexn + bool" where
  "is_passed pkg a =
     (case score_raw a of
        Some raw \<Rightarrow>
          if passing_score pkg \<noteq> 0 then
            (case (if float_truthy (score_max a) then percent_of raw (score_max a)
                   else Inr (NInt 0)) of
               Inl e \<Rightarrow> Inl e
             | Inr percentage \<Rightarrow> Inr (num_ge percentage (NInt (passing_score pkg))))
          else Inr (lesson_status a = ''passed'')
      | None \<Rightarrow> Inr (lesson_status a = ''passed''))"

definition get_percentage_score :: "scorm_attempt \<Rightarrow> pyexn + pynum" where
  "get_percentage_score a =
     (case score_raw a of
        Some raw \<Rightarrow>
          if float_truthy (score_max a) then percent_of raw (score_max a)
          else Inr (NInt 0)
      | None \<Rightarrow> Inr (NInt 0))"

text \<open>
  The pass rule in the words of the specification: the status is \<^verbatim>\<open>passed\<close>, or the
  percentage score reaches the passing score of the package.
\<close>

definition is_passed_spec :: "scorm_package \<Rightarrow> scorm_attempt \<Rightarrow> bool" where
  "is_passed_spec pkg a =
     (lesson_status a = ''passed'' \<or>
      (case get_percentage_score a of
         Inl e \<Rightarrow> False
       | Inr p \<Rightarrow> num_ge p (NInt (passing_score pkg))))"

definition example_package :: scorm_package where
  \<comment> \<open>a ready package with the field defaults: several attempts allowed, passing score 70\<close>
  "example_package =
     \<lparr> pkg_id = 1, course_id = 1, title = ''Module 1'', slug = ''module-1'',
       version = ''1.2'', package_file = ''scorm_packages/1/module.zip'',
       extracted_path = ''scorm_extracted/1/module-1'', entry_point = ''index.html'',
       status = ''ready'', error_message = [], allow_multiple_attempts = True,
       passing_score = 70, created_at = 0 \<rparr>"

section \<open>Strings of numbers: \<^verbatim>\<open>str()\<close> and \<^verbatim>\<open>float()\<close>\<close>

text \<open>
  A \<open>char\<close> stands for one character of a Python string, a code point below 256;
  strings with characters beyond are outside the model. The grammar of \<^verbatim>\<open>float()\<close> and
  the output of \<^verbatim>\<open>str()\<close> are those of CPython.
\<close>

definition digit_char :: "nat \<Rightarrow> char" where
  "digit_char d = ''0123456789'' ! (d mod 10)"

fun str_nat :: "nat \<Rightarrow> string" where
  "str_nat n = (if n < 10 then [digit_char n] else str_nat (n div 10) @ [digit_char n])"

declare str_nat.simps [simp del]

definition str_int :: "int \<Rightarrow> string" where
  "str_int i = (if i < 0 then CHR ''-'' # str_nat (nat (- i)) else str_nat (nat i))"

definition zero_pad :: "nat \<Rightarrow> string \<Rightarrow> string" where
  \<comment> \<open>\<^verbatim>\<open>%0wd\<close>\<close>
  "zero_pad w s = replicate (w - length s) CHR ''0'' @ s"

definition is_digit :: "char \<Rightarrow> bool" where
  "is_digit c = (c \<in> set ''0123456789'')"

definition ascii_space :: "char \<Rightarrow> bool" where
  \<comment> \<open>\<^verbatim>\<open>Py_ISSPACE\<close>: space, tab, line feed, vertical tab, form feed, carriage return\<close>
  "ascii_space c = (c \<in> {CHR '' '', CHR 0x09, CHR 0x0A, CHR 0x0B, CHR 0x0C, CHR 0x0D})"

definition high_space :: "char \<Rightarrow> bool" where
  \<comment> \<open>the white space among the code points from 127 on: next line and no-break space\<close>
  "high_space c = (c \<in> {CHR 0x85, CHR 0xA0})"

fun high_to_ascii :: "string \<Rightarrow> string" where
  \<comment> \<open>a code point below 127 stays; from 127 on, white space becomes a space and a
      decimal digit its ASCII digit (there is none below 256); at any other character
      the text ends with a question mark\<close>
  "high_to_ascii [] = []"
| "high_to_ascii (c # cs) =
     (if (of_char c :: nat) < 127 then c # high_to_ascii cs
      else if high_space c then CHR '' '' # high_to_ascii cs
      else ''?'')"

definition decimal_and_space_to_ascii :: "string \<Rightarrow> string" where
  \<comment> \<open>what \<^verbatim>\<open>float()\<close> does to a \<^verbatim>\<open>str\<close> first: an ASCII string is taken as it is\<close>
  "decimal_and_space_to_ascii s =
     (if list_all (\<lambda>c. (of_char c :: nat) < 128) s then s else high_to_ascii s)"

definition ascii_lower :: "char \<Rightarrow> char" where
  "ascii_lower c =
     (if 65 \<le> (of_char c :: nat) \<and> (of_char c :: nat) \<le> 90
      then char_of ((of_char c :: nat) + 32) else c)"

definition digits_val :: "string \<Rightarrow> nat" where
  "digits_val ds = foldl (\<lambda>n c. 10 * n + ((of_char c :: nat) - 48)) 0 ds"

definition pow10 :: "int \<Rightarrow> rat" where
  "pow10 e = (if 0 \<le> e then 10 ^ nat e else 1 / 10 ^ nat (- e))"

definition strip_space :: "string \<Rightarrow> string" where
  "strip_space s = rev (dropWhile ascii_space (rev (dropWhile ascii_space s)))"

fun drop_underscores :: "char \<Rightarrow> string \<Rightarrow> string option" where
  \<comment> \<open>an underscore is allowed between two digits only; the first argument is the
      character before\<close>
  "drop_underscores prev [] = (if prev = CHR ''_'' then None else Some [])"
| "drop_underscores prev (c # cs) =
     (if c = CHR ''_'' then
        (if is_digit prev then drop_underscores c cs else None)
      else if prev = CHR ''_'' \<and> \<not> is_digit c then None
      else map_option ((#) c) (drop_underscores c cs))"

definition take_sign :: "string \<Rightarrow> bool \<times> string" where
  "take_sign s =
     (case s of
        [] \<Rightarrow> (False, [])
      | c # cs \<Rightarrow> if c = CHR ''-'' then (True, cs)
                 else if c = CHR ''+'' then (False, cs) else (False, s))"

definition parse_inf_or_nan :: "string \<Rightarrow> pyfloat option" where
  "parse_inf_or_nan s =
     (case take_sign s of (neg, r) \<Rightarrow>
        (let l = map ascii_lower r in
         if l = ''inf'' \<or> l = ''infinity'' then Some (signed_inf neg)
         else if l = ''nan'' then Some NaN
         else None))"

definition parse_exponent :: "string \<Rightarrow> int option" where
  \<comment> \<open>what follows the mantissa: nothing, or \<^verbatim>\<open>e\<close>, a sign and digits\<close>
  "parse_exponent s =
     (case s of
        [] \<Rightarrow> Some 0
      | c # cs \<Rightarrow>
          if c = CHR ''e'' \<or> c = CHR ''E'' then
            (case take_sign cs of (neg, ds) \<Rightarrow>
               if ds \<noteq> [] \<and> list_all is_digit ds
               then Some (if neg then - int (digits_val ds) else int (digits_val ds))
               else None)
          else None)"

definition parse_decimal :: "string \<Rightarrow> pyfloat option" where
  "parse_decimal s =
     (case take_sign s of (neg, r) \<Rightarrow>
        (let ip = takeWhile is_digit r; r1 = dropWhile is_digit r;
             fp = (case r1 of [] \<Rightarrow> [] | c # t \<Rightarrow>
                     if c = CHR ''.'' then takeWhile is_digit t else []);
             r2 = (case r1 of [] \<Rightarrow> [] | c # t \<Rightarrow>
                     if c = CHR ''.'' then dropWhile is_digit t else r1)
         in if ip = [] \<and> fp = [] then None
            else (case parse_exponent r2 of
                    None \<Rightarrow> None
                  | Some ex \<Rightarrow>
                      (let m = digits_val (ip @ fp) in
                       if m = 0 then Some (signed_zero neg)
                       else Some (round_double
                         ((if neg then - 1 else 1) * of_nat m
                            * pow10 (ex - int (length fp))))))))"

definition float_of_string :: "string \<Rightarrow> pyexn + pyfloat" where
  \<comment> \<open>\<^verbatim>\<open>float(s)\<close> for a string: white space and digits beyond ASCII are mapped to
      ASCII, the ASCII white space at both ends is stripped, underscores between digits
      are dropped, and the rest is \<^verbatim>\<open>inf\<close>, \<^verbatim>\<open>nan\<close> or a decimal number\<close>
  "float_of_string s =
     (case drop_underscores (CHR 0x00) (strip_space (decimal_and_space_to_ascii s)) of
        None \<Rightarrow> Inl ValueError
      | Some u \<Rightarrow>
          (case parse_inf_or_nan u of
             Some x \<Rightarrow> Inr x
           | None \<Rightarrow>
               (case parse_decimal u of
                  Some x \<Rightarrow> Inr x
                | None \<Rightarrow> Inl ValueError)))"

text \<open>
  \<^verbatim>\<open>str(x)\<close> of a float is its \<^verbatim>\<open>repr\<close>: the shortest decimal, of at most 17 digits, that
  rounds to \<open>x\<close>, in fixed notation when the decimal point lies within \<open>-4 < decpt \<le> 16\<close>
  and in exponent notation otherwise.
\<close>

fun log10_up :: "nat \<Rightarrow> rat \<Rightarrow> int" where
  "log10_up 0 q = 0"
| "log10_up (Suc f) q = (if 10 \<le> q then 1 + log10_up f (q / 10) else 0)"

fun log10_down :: "nat \<Rightarrow> rat \<Rightarrow> int" where
  "log10_down 0 q = 0"
| "log10_down (Suc f) q = (if q < 1 then log10_down f (q * 10) - 1 else 0)"

definition ilog10 :: "rat \<Rightarrow> int" where
  \<comment> \<open>for a positive double \<open>q\<close>: the \<open>p\<close> with \<open>10 ^ p \<le> q < 10 ^ (p + 1)\<close>\<close>
  "ilog10 q = (if 1 \<le> q then log10_up 400 q else log10_down 400 q)"

fun shortest_digits :: "nat \<Rightarrow> nat \<Rightarrow> rat \<Rightarrow> int \<Rightarrow> int \<times> int" where
  \<comment> \<open>a decimal with \<open>k\<close> digits, as an integer and the power of ten of its last digit:
      of the two that enclose \<open>q\<close> the nearer one that rounds back to \<open>q\<close>; \<open>k\<close> grows
      until there is one\<close>
  "shortest_digits 0 k q p =
     (round_half_even (q / pow10 (p - int k + 1)), p - int k + 1)"
| "shortest_digits (Suc f) k q p =
     (let sc = pow10 (p - int k + 1);
          n = round_half_even (q / sc);
          n' = (if n = \<lfloor>q / sc\<rfloor> then n + 1 else n - 1) in
      if round_double (of_int n * sc) = Fin q then (n, p - int k + 1)
      else if round_double (of_int n' * sc) = Fin q then (n', p - int k + 1)
      else shortest_digits f (Suc k) q p)"

definition strip_zeros :: "string \<Rightarrow> string" where
  "strip_zeros s = rev (dropWhile (\<lambda>c. c = CHR ''0'') (rev s))"

definition format_repr :: "string \<Rightarrow> int \<Rightarrow> string" where
  \<comment> \<open>the digits \<open>ds\<close> with the decimal point after the first \<open>decpt\<close> of them\<close>
  "format_repr ds decpt =
     (if decpt \<le> - 4 \<or> 16 < decpt then
        hd ds # (if tl ds = [] then [] else CHR ''.'' # tl ds)
          @ ''e'' @ (if decpt - 1 < 0 then ''-'' else ''+'')
          @ zero_pad 2 (str_nat (nat \<bar>decpt - 1\<bar>))
      else if decpt \<le> 0 then
        ''0.'' @ replicate (nat (- decpt)) CHR ''0'' @ ds
      else if int (length ds) \<le> decpt then
        ds @ replicate (nat decpt - length ds) CHR ''0'' @ ''.0''
      else take (nat decpt) ds @ ''.'' @ drop (nat decpt) ds)"

definition repr_positive :: "rat \<Rightarrow> string" where
  "repr_positive q =
     (case shortest_digits 16 1 q (ilog10 q) of (n, e) \<Rightarrow>
        (let ds = str_nat (nat n) in
         format_repr (strip_zeros ds) (int (length ds) + e)))"

fun float_repr :: "pyfloat \<Rightarrow> string" where
  "float_repr (Fin q) =
     (if q = 0 then ''0.0''
      else if q < 0 then CHR ''-'' # repr_positive (- q)
      else repr_positive q)"
| "float_repr NegZero = ''-0.0''"
| "float_repr PosInf = ''inf''"
| "float_repr NegInf = ''-inf''"
| "float_repr NaN = ''nan''"

fun timedelta_truthy :: "timedelta \<Rightarrow> bool" where
  "timedelta_truthy (Timedelta d s us) = (d \<noteq> 0 \<or> s \<noteq> 0 \<or> us \<noteq> 0)"

fun timedelta_str :: "timedelta \<Rightarrow> string" where
  \<comment> \<open>\<^verbatim>\<open>[D day[s], ]H:MM:SS[.UUUUUU]\<close>\<close>
  "timedelta_str (Timedelta d s us) =
     (if d \<noteq> 0
      then str_int d @ '' day'' @ (if \<bar>d\<bar> \<noteq> 1 then ''s'' else []) @ '', ''
      else [])
     @ str_nat (s div 60 div 60) @ '':'' @ zero_pad 2 (str_nat (s div 60 mod 60))
     @ '':'' @ zero_pad 2 (str_nat (s mod 60))
     @ (if us \<noteq> 0 then ''.'' @ zero_pad 6 (str_nat us) else [])"

text \<open>
  The values a SCORM call carries come out of \<^verbatim>\<open>json.loads\<close>. Of a JSON array or object
  the code can only take the text (\<^verbatim>\<open>str(value)\<close>), which the value carries; it cannot be
  hashed and \<^verbatim>\<open>float()\<close> rejects it.
\<close>

datatype pyval =
    PNone | PBool bool | PInt int | PFloat pyfloat | PStr string | PContainer string

fun py_str :: "pyval \<Rightarrow> string" where
  "py_str PNone = ''None''"
| "py_str (PBool b) = (if b then ''True'' else ''False'')"
| "py_str (PInt n) = str_int n"
| "py_str (PFloat x) = float_repr x"
| "py_str (PStr s) = s"
| "py_str (PContainer txt) = txt"

fun py_float :: "pyval \<Rightarrow> pyexn + pyfloat" where
  "py_float PNone = Inl TypeError"
| "py_float (PBool b) = Inr (if b then Fin 1 else Fin 0)"
| "py_float (PInt n) =
     (if float_is_inf (round_double (of_int n)) then Inl OverflowError
      else Inr (round_double (of_int n)))"
| "py_float (PFloat x) = Inr x"
| "py_float (PStr s) = float_of_string s"
| "py_float (PContainer txt) = Inl TypeError"

section \<open>The SCORM data-model bridge of \<^verbatim>\<open>views.py\<close>\<close>

text \<open>
  The user model lives outside \<^verbatim>\<open>src/\<close>; of a user the code reads the key, the user name,
  what \<^verbatim>\<open>get_full_name()\<close> returns, the staff flags, and the courses of the student
  profile (\<open>None\<close> without one).
\<close>

record lms_user =
  user_pk :: nat
  username :: string
  full_name :: string
  is_superuser :: bool
  is_staff :: bool
  student_courses :: "nat list option"

definition get_scorm_value :: "scorm_attempt \<Rightarrow> lms_user \<Rightarrow> string \<Rightarrow> string" where
  \<comment> \<open>the second argument is \<^verbatim>\<open>attempt.user\<close>\<close>
  "get_scorm_value attempt usr element =
     (if element = ''cmi.core.lesson_status'' then lesson_status attempt
      else if element = ''cmi.core.score.raw'' then
        (case score_raw attempt of Some x \<Rightarrow> float_repr x | None \<Rightarrow> [])
      else if element = ''cmi.core.score.min'' then float_repr (score_min attempt)
      else if element = ''cmi.core.score.max'' then float_repr (score_max attempt)
      else if element = ''cmi.core.lesson_location'' then lesson_location attempt
      else if element = ''cmi.core.credit'' then credit attempt
      else if element = ''cmi.core.entry'' then entry attempt
      else if element = ''cmi.core.total_time'' then
        (case total_time attempt of
           Some t \<Rightarrow> if timedelta_truthy t then timedelta_str t else ''00:00:00''
         | None \<Rightarrow> ''00:00:00'')
      else if element = ''cmi.core.session_time'' then
        (case session_time attempt of
           Some t \<Rightarrow> if timedelta_truthy t then timedelta_str t else ''00:00:00''
         | None \<Rightarrow> ''00:00:00'')
      else if element = ''cmi.core.exit'' then exit_mode attempt
      else if element = ''cmi.suspend_data'' then suspend_data attempt
      else if element = ''cmi.launch_data'' then []
      else if element = ''cmi.comments'' then []
      else if element = ''cmi.comments_from_lms'' then []
      else if element = ''cmi.core.student_id'' then str_nat (user_pk usr)
      else if element = ''cmi.core.student_name'' then
        (if full_name usr \<noteq> [] then full_name usr else username usr)
      else if element = ''cmi.core._version'' then ''3.4''
      else [])"

definition get_elements :: "string list" where
  \<comment> \<open>the element names \<^verbatim>\<open>get_scorm_value\<close> has a branch for\<close>
  "get_elements =
     [''cmi.core.lesson_status'', ''cmi.core.score.raw'', ''cmi.core.score.min'',
      ''cmi.core.score.max'', ''cmi.core.lesson_location'', ''cmi.core.credit'',
      ''cmi.core.entry'', ''cmi.core.total_time'', ''cmi.core.session_time'',
      ''cmi.core.exit'', ''cmi.suspend_data'', ''cmi.launch_data'', ''cmi.comments'',
      ''cmi.comments_from_lms'', ''cmi.core.student_id'', ''cmi.core.student_name'',
      ''cmi.core._version'']"

definition status_choices :: "string list" where
  \<comment> \<open>the keys of \<^verbatim>\<open>dict(ScormAttempt.STATUS_CHOICES)\<close>\<close>
  "status_choices =
     [''browsed'', ''incomplete'', ''completed'', ''failed'', ''passed'', ''not_attempted'']"

fun in_status_choices :: "pyval \<Rightarrow> pyexn + bool" where
  \<comment> \<open>\<^verbatim>\<open>value in dict(...)\<close>: hashing a list or a dict raises; a key that is not a string
      equals none of the keys\<close>
  "in_status_choices (PStr s) = Inr (s \<in> set status_choices)"
| "in_status_choices (PContainer txt) = Inl TypeError"
| "in_status_choices _ = Inr False"

definition starts_with :: "string \<Rightarrow> string \<Rightarrow> bool" where
  "starts_with s p = (take (length p) s = p)"

definition set_float_field ::
  "pyval \<Rightarrow> (pyfloat \<Rightarrow> scorm_attempt) \<Rightarrow> scorm_attempt \<Rightarrow> pyexn + bool \<times> scorm_attempt" where
  \<comment> \<open>\<^verbatim>\<open>try: attempt.f = float(value)\<close>, \<^verbatim>\<open>except ValueError: return False\<close>,
      \<^verbatim>\<open>return True\<close>\<close>
  "set_float_field v upd attempt =
     (case py_float v of
        Inl e \<Rightarrow> if e = ValueError then Inr (False, attempt) else Inl e
      | Inr x \<Rightarrow> Inr (True, upd x))"

definition set_scorm_value_body ::
  "scorm_attempt \<Rightarrow> string \<Rightarrow> pyval \<Rightarrow> pyexn + bool \<times> scorm_attempt" where
  \<comment> \<open>the body of the outer \<^verbatim>\<open>try\<close>: the value returned and the attempt as mutated, or the
      exception that leaves the body\<close>
  "set_scorm_value_body attempt element v =
     (if element = ''cmi.core.lesson_status'' then
        (case in_status_choices v of
           Inl e \<Rightarrow> Inl e
         | Inr b \<Rightarrow>
             Inr (True, if b then attempt \<lparr>lesson_status := py_str v\<rparr> else attempt))
      else if element = ''cmi.core.score.raw'' then
        set_float_field v (\<lambda>x. attempt \<lparr>score_raw := Some x\<rparr>) attempt
      else if element = ''cmi.core.score.min'' then
        set_float_field v (\<lambda>x. attempt \<lparr>score_min := x\<rparr>) attempt
      else if element = ''cmi.core.score.max'' then
        set_float_field v (\<lambda>x. attempt \<lparr>score_max := x\<rparr>) attempt
      else if element = ''cmi.core.lesson_location'' then
        Inr (True, attempt \<lparr>lesson_location := take 255 (py_str v)\<rparr>)
      else if element = ''cmi.core.exit'' then
        Inr (True, attempt \<lparr>exit_mode := take 20 (py_str v)\<rparr>)
      else if element = ''cmi.core.session_time'' then Inr (True, attempt)
      else if element = ''cmi.suspend_data'' then
        Inr (True, attempt \<lparr>suspend_data := py_str v\<rparr>)
      else if starts_with element ''cmi.interactions.'' then Inr (True, attempt)
      else if starts_with element ''cmi.objectives.'' then Inr (True, attempt)
      else Inr (True, attempt))"

definition set_scorm_value ::
  "scorm_attempt \<Rightarrow> string \<Rightarrow> pyval \<Rightarrow> pyexn + bool \<times> scorm_attempt" where
  \<comment> \<open>\<^verbatim>\<open>except Exception: return False\<close>: every exception of the body is an \<^verbatim>\<open>Exception\<close>,
      and each is raised before the assignment of its branch\<close>
  "set_scorm_value attempt element v =
     (case set_scorm_value_body attempt element v of
        Inl e \<Rightarrow> Inr (False, attempt)
      | Inr r \<Rightarrow> Inr r)"

definition set_elements :: "string list" where
  \<comment> \<open>the element names \<^verbatim>\<open>set_scorm_value\<close> writes a field for\<close>
  "set_elements =
     [''cmi.core.lesson_status'', ''cmi.core.score.raw'', ''cmi.core.score.min'',
      ''cmi.core.score.max'', ''cmi.core.lesson_location'', ''cmi.core.exit'',
      ''cmi.suspend_data'']"

subsection \<open>The tables and \<^verbatim>\<open>attempt.save()\<close>\<close>

record lms_db =
  packages :: "scorm_package list"
  attempts :: "scorm_attempt list"
  next_attempt_id :: nat

definition save_attempt :: "lms_db \<Rightarrow> nat \<Rightarrow> scorm_attempt \<Rightarrow> scorm_attempt \<times> lms_db" where
  \<comment> \<open>\<^verbatim>\<open>attempt.save()\<close> of a loaded attempt at time \<open>now\<close>: \<^verbatim>\<open>auto_now\<close> stamps
      \<^verbatim>\<open>last_accessed\<close>, the row with the key is replaced, or added when there is none\<close>
  "save_attempt db now attempt =
     (let a = attempt \<lparr>last_accessed := now\<rparr> in
      (a, db \<lparr>attempts :=
           (if \<exists>r \<in> set (attempts db). attempt_id r = attempt_id a
            then map (\<lambda>r. if attempt_id r = attempt_id a then a else r) (attempts db)
            else attempts db @ [a])\<rparr>))"

definition load_attempt :: "lms_db \<Rightarrow> nat \<Rightarrow> nat \<Rightarrow> scorm_attempt option" where
  \<comment> \<open>\<^verbatim>\<open>ScormAttempt.objects.get(id=attempt_id, user=request.user)\<close>, \<open>None\<close> for
      \<^verbatim>\<open>DoesNotExist\<close>\<close>
  "load_attempt db aid uid =
     find (\<lambda>r. attempt_id r = aid \<and> user_id r = uid) (attempts db)"

definition example_user :: lms_user where
  "example_user =
     \<lparr> user_pk = 7, username = ''learner'', full_name = ''Ada Learner'',
       is_superuser = False, is_staff = False, student_courses = Some [1] \<rparr>"

definition numeric_string :: "string \<Rightarrow> bool" where
  \<comment> \<open>\<^verbatim>\<open>float(s)\<close> returns a float instead of raising\<close>
  "numeric_string s = (case float_of_string s of Inl e \<Rightarrow> False | Inr x \<Rightarrow> True)"

section \<open>The progress view \<^verbatim>\<open>user_scorm_progress\<close>\<close>

text \<open>
  \<^verbatim>\<open>progress_by_package\<close> is a dict keyed by the package key; it is kept as an association
  list in insertion order. The query result is ordered by \<^verbatim>\<open>-started_at\<close>.
\<close>

record progress_entry =
  pe_package :: nat
  latest_attempt :: scorm_attempt
  total_attempts :: nat
  best_score :: pynum

record progress_context =
  progress_data :: "progress_entry list"
  total_packages :: nat
  completed_packages :: nat

definition progress_update :: "scorm_attempt \<Rightarrow> progress_entry \<Rightarrow> progress_entry" where
  \<comment> \<open>\<^verbatim>\<open>total_attempts += 1\<close>, then
      \<^verbatim>\<open>if attempt.score_raw and attempt.score_raw > best_score: best_score = score_raw\<close>\<close>
  "progress_update a e =
     (let e1 = e \<lparr>total_attempts := total_attempts e + 1\<rparr> in
      case score_raw a of
        None \<Rightarrow> e1
      | Some raw \<Rightarrow>
          if float_truthy raw \<and> num_gt (NFloat raw) (best_score e1)
          then e1 \<lparr>best_score := NFloat raw\<rparr> else e1)"

definition progress_step ::
  "(nat \<times> progress_entry) list \<Rightarrow> scorm_attempt \<Rightarrow> (nat \<times> progress_entry) list" where
  \<comment> \<open>one round of the \<^verbatim>\<open>for\<close> loop\<close>
  "progress_step d a =
     (let pid = package_id a;
          d1 = (if pid \<notin> set (map fst d)
                then d @ [(pid, \<lparr> pe_package = pid, latest_attempt = a,
                                  total_attempts = 0, best_score = NInt 0 \<rparr>)]
                else d)
      in map (\<lambda>(k, e). if k = pid then (k, progress_update a e) else (k, e)) d1)"

definition user_attempts_desc :: "lms_db \<Rightarrow> lms_user \<Rightarrow> scorm_attempt list" where
  \<comment> \<open>\<^verbatim>\<open>ScormAttempt.objects.filter(user=request.user).order_by('-started_at')\<close>\<close>
  "user_attempts_desc db usr =
     sort_key (\<lambda>a. - int (started_at a))
       (filter (\<lambda>a. user_id a = user_pk usr) (attempts db))"

definition user_scorm_progress :: "lms_db \<Rightarrow> lms_user \<Rightarrow> progress_context" where
  "user_scorm_progress db usr =
     (let progress_by_package = foldl progress_step [] (user_attempts_desc db usr) in
      \<lparr> progress_data = map snd progress_by_package,
        total_packages = length progress_by_package,
        completed_packages =
          length (filter (\<lambda>p. lesson_status (latest_attempt p) \<in> {''completed'', ''passed''})
                    (map snd progress_by_package)) \<rparr>)"

definition example_progress_db :: lms_db where
  \<comment> \<open>one attempt of the example user, with the raw score \<open>-5\<close>\<close>
  "example_progress_db =
     \<lparr> packages = [example_package],
       attempts = [(new_attempt 1 1 7 0) \<lparr>score_raw := Some (Fin (- 5))\<rparr>],
       next_attempt_id = 2 \<rparr>"

text \<open>
  What the summary of a package is measured against: the attempts of a learner on a
  package, the raw score of an attempt as a number (\<open>0\<close> without a score), and the greatest
  among \<open>0\<close> and the scores of a list of attempts.
\<close>

definition attempts_of :: "lms_db \<Rightarrow> nat \<Rightarrow> nat \<Rightarrow> scorm_attempt list" where
  "attempts_of db uid pid =
     filter (\<lambda>a. user_id a = uid \<and> package_id a = pid) (attempts db)"

definition score_or_zero :: "scorm_attempt \<Rightarrow> pynum" where
  "score_or_zero a = (case score_raw a of None \<Rightarrow> NInt 0 | Some raw \<Rightarrow> NFloat raw)"

definition greatest_score_or_zero :: "pynum \<Rightarrow> scorm_attempt list \<Rightarrow> bool" where
  "greatest_score_or_zero b ys =
     (b \<in> set (NInt 0 # map score_or_zero ys) \<and>
      (\<forall>s \<in> set (NInt 0 # map score_or_zero ys). \<not> num_gt s b))"

definition entry_ok :: "scorm_attempt list \<Rightarrow> nat \<Rightarrow> progress_entry \<Rightarrow> bool" where
  \<comment> \<open>the loop invariant: the entry under key \<open>k\<close> summarises the attempts seen so far\<close>
  "entry_ok xs k e =
     (pe_package e = k \<and>
      total_attempts e = length (filter (\<lambda>a. package_id a = k) xs) \<and>
      greatest_score_or_zero (best_score e) (filter (\<lambda>a. package_id a = k) xs))"

definition example_scores_db :: lms_db where
  \<comment> \<open>three attempts of the example user on package 1, with the scores 60, 85 and none,
      and an attempt of another user\<close>
  "example_scores_db =
     \<lparr> packages = [example_package],
       attempts =
         [(new_attempt 1 1 7 0) \<lparr>score_raw := Some (Fin 60)\<rparr>,
          (new_attempt 2 1 8 3) \<lparr>score_raw := Some (Fin 99)\<rparr>,
          (new_attempt 3 1 7 5) \<lparr>score_raw := Some (Fin 85)\<rparr>,
          new_attempt 4 1 7 9],
       next_attempt_id = 5 \<rparr>"

section \<open>The launch view \<^verbatim>\<open>launch_scorm_package\<close>\<close>

text \<open>
  The view answers with a 404, with the redirect to the package page that carries the
  warning about multiple attempts, or with the player page; an exception that leaves the
  view is the fourth answer. Of the player context the package, the attempt, the launch
  URL and the attempt count are kept; the entries about the other packages of the course
  are left out. The second component of the result is the database after the request.
\<close>

record launch_context =
  ctx_package :: scorm_package
  ctx_attempt :: scorm_attempt
  launch_url :: string
  attempt_count :: nat

datatype launch_response =
    Http404
  | Redirect string
  | Render launch_context
  | Raised pyexn

definition permitted :: "lms_user \<Rightarrow> scorm_package \<Rightarrow> bool" where
  \<comment> \<open>staff and superusers, and students enrolled in the course of the package\<close>
  "permitted usr package =
     (if \<not> (is_superuser usr \<or> is_staff usr) then
        (case student_courses usr of
           Some enrolled_courses \<Rightarrow> course_id package \<in> set enrolled_courses
         | None \<Rightarrow> False)
      else True)"

definition existing_attempts :: "lms_db \<Rightarrow> scorm_package \<Rightarrow> lms_user \<Rightarrow> scorm_attempt list" where
  \<comment> \<open>\<^verbatim>\<open>ScormAttempt.objects.filter(package=package, user=user)\<close>, in the order
      \<^verbatim>\<open>-started_at\<close> of \<^verbatim>\<open>Meta.ordering\<close>\<close>
  "existing_attempts db package usr =
     sort_key (\<lambda>a. - int (started_at a))
       (filter (\<lambda>a. package_id a = pkg_id package \<and> user_id a = user_pk usr) (attempts db))"

definition get_or_create ::
  "lms_db \<Rightarrow> scorm_package \<Rightarrow> lms_user \<Rightarrow> nat \<Rightarrow> pyexn + (scorm_attempt \<times> bool) \<times> lms_db" where
  \<comment> \<open>the lookup is by package, user and \<^verbatim>\<open>lesson_status='not_attempted'\<close>; the row
      created takes \<^verbatim>\<open>started_at\<close> and \<^verbatim>\<open>lesson_status='incomplete'\<close> from the defaults;
      \<^verbatim>\<open>unique_together\<close> forbids a second row with the package, user and start time\<close>
  "get_or_create db package usr now =
     (case filter (\<lambda>a. package_id a = pkg_id package \<and> user_id a = user_pk usr \<and>
                        lesson_status a = ''not_attempted'') (attempts db) of
        [] \<Rightarrow>
          if \<exists>r \<in> set (attempts db). package_id r = pkg_id package \<and>
                user_id r = user_pk usr \<and> started_at r = now
          then Inl IntegrityError
          else
            (let a = (new_attempt (next_attempt_id db) (pkg_id package) (user_pk usr) now)
                       \<lparr>lesson_status := ''incomplete''\<rparr>
             in Inr ((a, True),
                     db \<lparr>attempts := attempts db @ [a],
                         next_attempt_id := next_attempt_id db + 1\<rparr>))
      | [a] \<Rightarrow> Inr ((a, False), db)
      | _ \<Rightarrow> Inl MultipleObjectsReturned)"

definition launch_scorm_package ::
  "lms_db \<Rightarrow> lms_user \<Rightarrow> nat \<Rightarrow> string \<Rightarrow> launch_response \<times> lms_db" where
  "launch_scorm_package db usr now slg =
     (case find (\<lambda>p. slug p = slg \<and> status p = ''ready'') (packages db) of
        None \<Rightarrow> (Http404, db)
      | Some package \<Rightarrow>
          if \<not> permitted usr package then (Http404, db)
          else if \<not> allow_multiple_attempts package \<and> existing_attempts db package usr \<noteq> []
                  \<and> lesson_status (hd (existing_attempts db package usr))
                       \<in> {''completed'', ''passed''}
          then (Redirect slg, db)
          else
            (case get_or_create db package usr now of
               Inl e \<Rightarrow> (Raised e, db)
             | Inr ((current_attempt, created), db1) \<Rightarrow>
                 (case (if \<not> created then save_attempt db1 now current_attempt
                        else (current_attempt, db1)) of
                    (current_attempt, db2) \<Rightarrow>
                      (Render \<lparr> ctx_package = package,
                                ctx_attempt = current_attempt,
                                launch_url = ''/media/'' @ extracted_path package @ ''/''
                                               @ entry_point package,
                                attempt_count = length (existing_attempts db2 package usr) \<rparr>,
                       db2))))"

fun launched_attempt :: "launch_response \<Rightarrow> nat option" where
  \<comment> \<open>the key of the attempt the player page is rendered for\<close>
  "launched_attempt (Render ctx) = Some (attempt_id (ctx_attempt ctx))"
| "launched_attempt _ = None"

definition example_launch_db :: lms_db where
  \<comment> \<open>the example user has one attempt in progress on package 1, as a first launch at
      time 0 creates it\<close>
  "example_launch_db =
     \<lparr> packages = [example_package],
       attempts = [(new_attempt 1 1 7 0) \<lparr>lesson_status := ''incomplete''\<rparr>],
       next_attempt_id = 2 \<rparr>"

definition example_policy_db :: lms_db where
  \<comment> \<open>package 1 allows one attempt only; the example user has a completed attempt and a
      later one in progress\<close>
  "example_policy_db =
     \<lparr> packages = [example_package \<lparr>allow_multiple_attempts := False\<rparr>],
       attempts = [(new_attempt 1 1 7 0) \<lparr>lesson_status := ''completed''\<rparr>,
                   (new_attempt 2 1 7 5) \<lparr>lesson_status := ''incomplete''\<rparr>],
       next_attempt_id = 3 \<rparr>"

definition example_completed_db :: lms_db where
  \<comment> \<open>package 1 allows one attempt only; the last attempt of the example user is passed\<close>
  "example_completed_db =
     \<lparr> packages = [example_package \<lparr>allow_multiple_attempts := False\<rparr>],
       attempts = [(new_attempt 1 1 7 0) \<lparr>lesson_status := ''incomplete''\<rparr>,
                   (new_attempt 2 1 7 5) \<lparr>lesson_status := ''passed''\<rparr>],
       next_attempt_id = 3 \<rparr>"

section \<open>Ingestion: \<^verbatim>\<open>ScormPackage.extract_package\<close>\<close>















section \<open>The runtime endpoint \<^verbatim>\<open>scorm_api\<close>\<close>

text \<open>
  One call of the endpoint is one HTTP request: the attempt is loaded from the table by
  its key and the calling user, the method is carried out on the loaded object, and the
  object is written back only where the branch calls \<^verbatim>\<open>attempt.save()\<close>. The request body
  is what \<^verbatim>\<open>json.loads\<close> makes of it (\<open>None\<close> when it is not JSON): the method, the list
  of parameters, and the attempt key, a number or absent. An element that is not a string
  equals no element name; \<^verbatim>\<open>set_scorm_value\<close> then fails at \<^verbatim>\<open>element.startswith\<close> and
  returns false.
\<close>

record api_data =
  data_method :: pyval
  data_parameters :: "pyval list"
  data_attempt_id :: "nat option"

datatype api_response =
    JsonSuccess bool "string option"
  | JsonError string nat

definition api_get_value :: "scorm_attempt \<Rightarrow> lms_user \<Rightarrow> pyval list \<Rightarrow> string" where
  \<comment> \<open>\<^verbatim>\<open>element = parameters[0] if parameters else ''\<close>, then \<^verbatim>\<open>get_scorm_value\<close>\<close>
  "api_get_value attempt usr parameters =
     (case parameters of
        [] \<Rightarrow> get_scorm_value attempt usr []
      | PStr element # rest \<Rightarrow> get_scorm_value attempt usr element
      | other # rest \<Rightarrow> [])"

definition api_set_value :: "scorm_attempt \<Rightarrow> pyval list \<Rightarrow> pyexn + bool \<times> scorm_attempt" where
  \<comment> \<open>\<^verbatim>\<open>element = parameters[0] if len(parameters) > 0 else ''\<close>,
      \<^verbatim>\<open>value = parameters[1] if len(parameters) > 1 else ''\<close>, then \<^verbatim>\<open>set_scorm_value\<close>\<close>
  "api_set_value attempt parameters =
     (case parameters of
        [] \<Rightarrow> set_scorm_value attempt [] (PStr [])
      | [PStr element] \<Rightarrow> set_scorm_value attempt element (PStr [])
      | PStr element # v # rest \<Rightarrow> set_scorm_value attempt element v
      | other # rest \<Rightarrow> Inr (False, attempt))"

definition scorm_api ::
  "lms_db \<Rightarrow> lms_user \<Rightarrow> nat \<Rightarrow> string \<Rightarrow> api_data option \<Rightarrow> api_response \<times> lms_db" where
  \<comment> \<open>the answer and the database after the request of user \<open>usr\<close> at time \<open>now\<close> with
      the HTTP method \<open>verb\<close>\<close>
  "scorm_api db usr now verb body =
     (if verb = ''POST'' then
        (case body of
           None \<Rightarrow> (JsonError ''Invalid JSON'' 400, db)
         | Some data \<Rightarrow>
             (case data_attempt_id data of
                None \<Rightarrow> (JsonError ''No attempt ID provided'' 400, db)
              | Some aid \<Rightarrow>
                  if aid = 0 then (JsonError ''No attempt ID provided'' 400, db)
                  else
                    (case load_attempt db aid (user_pk usr) of
                       None \<Rightarrow> (JsonError ''Invalid attempt'' 404, db)
                     | Some attempt \<Rightarrow>
                         if data_method data = PStr ''LMSGetValue'' then
                           (JsonSuccess True
                              (Some (api_get_value attempt usr (data_parameters data))), db)
                         else if data_method data = PStr ''LMSSetValue'' then
                           (case api_set_value attempt (data_parameters data) of
                              Inl e \<Rightarrow> (JsonError [] 500, db)
                            | Inr (success, attempt1) \<Rightarrow> (JsonSuccess success None, db))
                         else if data_method data = PStr ''LMSCommit'' then
                           (JsonSuccess True None, snd (save_attempt db now attempt))
                         else if data_method data = PStr ''LMSFinish'' then
                           (JsonSuccess True None,
                            snd (save_attempt db now (attempt \<lparr>completed_at := Some now\<rparr>)))
                         else (JsonSuccess True (Some []), db))))
      else (JsonError ''Method not allowed'' 405, db))"

definition example_api_db :: lms_db where
  \<comment> \<open>the example user has the attempt 1 in progress, with the raw score 75 stored\<close>
  "example_api_db =
     \<lparr> packages = [example_package],
       attempts = [(new_attempt 1 1 7 0)
                     \<lparr>lesson_status := ''incomplete'', score_raw := Some (Fin 75)\<rparr>],
       next_attempt_id = 2 \<rparr>"

definition api_call :: "string \<Rightarrow> pyval list \<Rightarrow> api_data option" where
  \<comment> \<open>the body of a call on the attempt 1\<close>
  "api_call method parameters =
     Some \<lparr> data_method = PStr method, data_parameters = parameters,
            data_attempt_id = Some 1 \<rparr>"

section \<open>Scores and the pass rule\<close>

lemma percent_of_total:
  "float_truthy mx \<Longrightarrow> \<exists>p. percent_of raw mx = Inr (NFloat p)"
  by (simp add: percent_of_def float_truediv_def float_truthy_def)

text \<open>
  C5. For an attempt with a score, \<^verbatim>\<open>get_percentage_score\<close> is \<^verbatim>\<open>score_raw / score_max * 100\<close>
  in float arithmetic when \<^verbatim>\<open>score_max\<close> is not zero and \<open>0\<close> when it is zero; on every
  attempt it returns a number, the division never raises.
\<close>

theorem get_percentage_score_total:
  "(\<exists>p. get_percentage_score a = Inr p) \<and>
   (score_raw a = None \<longrightarrow> get_percentage_score a = Inr (NInt 0)) \<and>
   (\<forall>raw. score_raw a = Some raw \<longrightarrow>
      (float_is_zero (score_max a) \<longrightarrow> get_percentage_score a = Inr (NInt 0)) \<and>
      (\<not> float_is_zero (score_max a) \<longrightarrow>
         (\<exists>d. float_truediv raw (score_max a) = Inr d \<and>
              get_percentage_score a = Inr (NFloat (float_mul d (Fin 100))))))"
proof -
  have none: "get_percentage_score a = Inr (NInt 0)" if "score_raw a = None"
    using that by (simp add: get_percentage_score_def)
  have zero: "get_percentage_score a = Inr (NInt 0)"
    if "score_raw a = Some raw" "float_is_zero (score_max a)" for raw
    using that by (simp add: get_percentage_score_def float_truthy_def)
  have quotient: "\<exists>d. float_truediv raw (score_max a) = Inr d \<and>
      get_percentage_score a = Inr (NFloat (float_mul d (Fin 100)))"
    if "score_raw a = Some raw" "\<not> float_is_zero (score_max a)" for raw
    using that
    by (simp add: get_percentage_score_def float_truthy_def percent_of_def
        float_truediv_def)
  have total: "\<exists>p. get_percentage_score a = Inr p"
  proof (cases "score_raw a")
    case None
    with none show ?thesis by simp
  next
    case (Some raw)
    with zero [of raw] quotient [of raw] show ?thesis
      by (cases "float_is_zero (score_max a)") auto
  qed
  from total none zero quotient show ?thesis by blast
qed

lemma round_double_3_4: "round_double (3 / 4) = Fin (3 / 4)"
  by code_simp

lemma round_double_75: "round_double 75 = Fin 75"
  by code_simp

lemma percent_of_75_100: "percent_of (Fin 75) (Fin 100) = Inr (NFloat (Fin 75))"
  by (simp add: percent_of_def float_truediv_def float_mul_def round_double_3_4
      round_double_75)

theorem get_percentage_score_total_witness:
  "get_percentage_score
     ((new_attempt 1 1 1 0) \<lparr>score_raw := Some (Fin 5), score_max := Fin 0\<rparr>) = Inr (NInt 0) \<and>
   get_percentage_score ((new_attempt 1 1 1 0) \<lparr>score_raw := Some (Fin 75)\<rparr>)
     = Inr (NFloat (Fin 75)) \<and>
   get_percentage_score (new_attempt 1 1 1 0) = Inr (NInt 0)"
proof -
  have d: "float_truediv (Fin 75) (Fin 100) = Inr (Fin (3 / 4))"
    by (simp add: float_truediv_def round_double_3_4)
  have m: "float_mul (Fin (3 / 4)) (Fin 100) = Fin 75"
    by (simp add: float_mul_def round_double_75)
  from d m
    get_percentage_score_total
      [of "(new_attempt 1 1 1 0) \<lparr>score_raw := Some (Fin 5), score_max := Fin 0\<rparr>"]
    get_percentage_score_total [of "(new_attempt 1 1 1 0) \<lparr>score_raw := Some (Fin 75)\<rparr>"]
    get_percentage_score_total [of "new_attempt 1 1 1 0"]
  show ?thesis by (simp add: new_attempt_def)
qed

text \<open>
  C1 as the specification states it: \<^verbatim>\<open>is_passed\<close> is true exactly when the status is
  \<^verbatim>\<open>passed\<close> or the percentage score reaches the passing score. The code decides by the
  score alone once a score is stored and the passing score is not zero: an attempt with
  status \<^verbatim>\<open>passed\<close> and a score of \<open>0\<close> out of \<open>100\<close> is not passed for a package with
  passing score \<open>70\<close>.
\<close>

theorem is_passed_spec_counterexample:
  "is_passed example_package
     ((new_attempt 1 1 1 0) \<lparr>lesson_status := ''passed'', score_raw := Some (Fin 0)\<rparr>)
     = Inr False \<and>
   is_passed_spec example_package
     ((new_attempt 1 1 1 0) \<lparr>lesson_status := ''passed'', score_raw := Some (Fin 0)\<rparr>)"
  by (simp add: is_passed_def is_passed_spec_def new_attempt_def example_package_def
      float_truthy_def percent_of_def float_truediv_def float_mul_def signed_zero_def
      num_ge_def)

text \<open>
  C1, amended. When the attempt has a score and the passing score of the package is not
  zero, \<^verbatim>\<open>is_passed\<close> is true exactly when the percentage score (that of
  \<^verbatim>\<open>get_percentage_score\<close>) reaches the passing score; otherwise it is true exactly when the
  status is \<^verbatim>\<open>passed\<close>. It never raises.
\<close>

theorem is_passed_score_then_status:
  "is_passed pkg a =
     Inr (if score_raw a \<noteq> None \<and> passing_score pkg \<noteq> 0
          then (case get_percentage_score a of
                  Inl e \<Rightarrow> False
                | Inr p \<Rightarrow> num_ge p (NInt (passing_score pkg)))
          else lesson_status a = ''passed'')"
proof (cases "score_raw a")
  case None
  then show ?thesis by (simp add: is_passed_def)
next
  case (Some raw)
  show ?thesis
  proof (cases "float_truthy (score_max a)")
    case True
    from percent_of_total [OF True, of raw] obtain p
      where "percent_of raw (score_max a) = Inr (NFloat p)" by blast
    with Some True show ?thesis
      by (simp add: is_passed_def get_percentage_score_def)
  next
    case False
    with Some show ?thesis
      by (simp add: is_passed_def get_percentage_score_def)
  qed
qed

theorem is_passed_score_then_status_witness:
  "is_passed example_package ((new_attempt 1 1 1 0) \<lparr>score_raw := Some (Fin 75)\<rparr>) = Inr True \<and>
   get_percentage_score ((new_attempt 1 1 1 0) \<lparr>score_raw := Some (Fin 75)\<rparr>)
     = Inr (NFloat (Fin 75))"
  using is_passed_score_then_status
    [of example_package "(new_attempt 1 1 1 0) \<lparr>score_raw := Some (Fin 75)\<rparr>"]
  by (simp add: get_percentage_score_def new_attempt_def example_package_def
      float_truthy_def percent_of_75_100 num_ge_def)

section \<open>Reading and writing data-model elements\<close>

lemma float_of_string_85: "float_of_string ''85'' = Inr (Fin 85)"
  by code_simp

lemma float_repr_75: "float_repr (Fin 75) = ''75.0''"
  by code_simp

lemma float_of_string_notanumber: "float_of_string ''notanumber'' = Inl ValueError"
  by code_simp

lemma float_of_string_error: "float_of_string s = Inl e \<Longrightarrow> e = ValueError"
  by (auto simp: float_of_string_def split: option.splits)

lemma set_score_raw_rejected:
  assumes "\<not> numeric_string s"
  shows "set_scorm_value attempt ''cmi.core.score.raw'' (PStr s) = Inr (False, attempt)"
proof -
  from assms obtain e where "float_of_string s = Inl e"
    by (auto simp: numeric_string_def split: sum.splits)
  moreover from this have "e = ValueError" by (rule float_of_string_error)
  ultimately show ?thesis
    by (simp add: set_scorm_value_def set_scorm_value_body_def set_float_field_def)
qed

lemma set_score_raw_85:
  "set_scorm_value attempt ''cmi.core.score.raw'' (PStr ''85'')
     = Inr (True, attempt \<lparr>score_raw := Some (Fin 85)\<rparr>)"
  by (simp add: set_scorm_value_def set_scorm_value_body_def set_float_field_def
      float_of_string_85)

lemma api_set_value_keeps_db:
  assumes "data_method data = PStr ''LMSSetValue''"
  shows "snd (scorm_api db usr now verb (Some data)) = db"
  using assms
  by (auto simp: scorm_api_def split: option.splits sum.splits)

text \<open>
  C6. The specification asks that a rejected score leaves the stored one alone, and that
  a score set to \<^verbatim>\<open>'85'\<close> reads \<^verbatim>\<open>'85.0'\<close> after the commit. With the score 75 stored, the
  call that sets \<^verbatim>\<open>'notanumber'\<close> answers false and the call that sets \<^verbatim>\<open>'85'\<close> answers
  true, and both leave the table as it was: the branch of \<^verbatim>\<open>LMSSetValue\<close> changes the
  loaded object and never saves it. The commit saves the row it has just loaded, and the
  read after it answers \<^verbatim>\<open>'75.0'\<close>.
\<close>

theorem api_set_commit_get_stale:
  "scorm_api example_api_db example_user 1 ''POST''
     (api_call ''LMSSetValue'' [PStr ''cmi.core.score.raw'', PStr ''notanumber''])
     = (JsonSuccess False None, example_api_db) \<and>
   scorm_api example_api_db example_user 1 ''POST''
     (api_call ''LMSSetValue'' [PStr ''cmi.core.score.raw'', PStr ''85''])
     = (JsonSuccess True None, example_api_db) \<and>
   fst (scorm_api example_api_db example_user 2 ''POST'' (api_call ''LMSCommit'' []))
     = JsonSuccess True None \<and>
   fst (scorm_api
          (snd (scorm_api example_api_db example_user 2 ''POST'' (api_call ''LMSCommit'' [])))
          example_user 3 ''POST'' (api_call ''LMSGetValue'' [PStr ''cmi.core.score.raw'']))
     = JsonSuccess True (Some ''75.0'')"
proof -
  let ?a = "(new_attempt 1 1 7 0) \<lparr>lesson_status := ''incomplete'', score_raw := Some (Fin 75)\<rparr>"
  have loaded: "load_attempt example_api_db 1 (user_pk example_user) = Some ?a"
    by (simp add: load_attempt_def example_api_db_def example_user_def new_attempt_def
        del: One_nat_def)
  have rejected: "scorm_api example_api_db example_user 1 ''POST''
     (api_call ''LMSSetValue'' [PStr ''cmi.core.score.raw'', PStr ''notanumber''])
     = (JsonSuccess False None, example_api_db)"
    using set_score_raw_rejected [of "''notanumber''" ?a]
    by (simp add: scorm_api_def api_call_def loaded api_set_value_def numeric_string_def
        float_of_string_notanumber del: One_nat_def)
  have accepted: "scorm_api example_api_db example_user 1 ''POST''
     (api_call ''LMSSetValue'' [PStr ''cmi.core.score.raw'', PStr ''85''])
     = (JsonSuccess True None, example_api_db)"
    by (simp add: scorm_api_def api_call_def loaded api_set_value_def set_score_raw_85
        del: One_nat_def)
  have saved: "snd (save_attempt example_api_db 2 ?a)
      = example_api_db \<lparr>attempts := [?a \<lparr>last_accessed := 2\<rparr>]\<rparr>"
    by (simp add: save_attempt_def Let_def example_api_db_def new_attempt_def)
  have commit: "scorm_api example_api_db example_user 2 ''POST'' (api_call ''LMSCommit'' [])
     = (JsonSuccess True None,
        example_api_db \<lparr>attempts := [?a \<lparr>last_accessed := 2\<rparr>]\<rparr>)"
    unfolding saved [symmetric]
    by (simp add: scorm_api_def api_call_def loaded del: One_nat_def)
  have reloaded: "load_attempt (example_api_db \<lparr>attempts := [?a \<lparr>last_accessed := 2\<rparr>]\<rparr>) 1
      (user_pk example_user) = Some (?a \<lparr>last_accessed := 2\<rparr>)"
    by (simp add: load_attempt_def example_user_def new_attempt_def del: One_nat_def)
  have read: "fst (scorm_api (example_api_db \<lparr>attempts := [?a \<lparr>last_accessed := 2\<rparr>]\<rparr>)
          example_user 3 ''POST'' (api_call ''LMSGetValue'' [PStr ''cmi.core.score.raw'']))
     = JsonSuccess True (Some ''75.0'')"
    by (simp add: scorm_api_def api_call_def reloaded api_get_value_def get_scorm_value_def
        float_repr_75 del: float_repr.simps One_nat_def)
  from rejected accepted commit read show ?thesis by simp
qed

text \<open>
  C7. For an element name that \<^verbatim>\<open>get_scorm_value\<close> has no branch for, it returns the empty
  string; the function has no step that raises.
\<close>

theorem get_unknown_element_empty:
  "element \<notin> set get_elements \<Longrightarrow> get_scorm_value attempt usr element = []"
  by (simp add: get_scorm_value_def get_elements_def)

theorem get_unknown_element_empty_witness:
  "''cmi.core.score.scaled'' \<notin> set get_elements \<and>
   get_scorm_value (new_attempt 1 1 7 0) example_user ''cmi.core.score.scaled'' = []"
proof -
  have h: "''cmi.core.score.scaled'' \<notin> set get_elements"
    by (simp add: get_elements_def)
  from h get_unknown_element_empty [OF h] show ?thesis by simp
qed

text \<open>
  C8 as the specification states it: a value outside the status enumeration leaves the
  status alone and the call still returns true. A JSON array is such a value, and for it
  the membership test raises inside the \<^verbatim>\<open>try\<close>, so the call returns false.
\<close>

theorem set_lesson_status_counterexample:
  "in_status_choices (PContainer ''[]'') \<noteq> Inr True \<and>
   set_scorm_value (new_attempt 1 1 7 0) ''cmi.core.lesson_status'' (PContainer ''[]'')
     = Inr (False, new_attempt 1 1 7 0)"
  by (simp add: set_scorm_value_def set_scorm_value_body_def)

text \<open>
  C8, amended. Setting \<^verbatim>\<open>cmi.core.lesson_status\<close> to a string of the enumeration stores it
  and returns true; to any other string, number, boolean or null it leaves the attempt
  as it was and returns true; to a JSON array or object it leaves the attempt as it was
  and returns false.
\<close>

theorem set_lesson_status_cases:
  "set_scorm_value attempt ''cmi.core.lesson_status'' v =
     (case v of
        PStr s \<Rightarrow>
          Inr (True, if s \<in> set status_choices then attempt \<lparr>lesson_status := s\<rparr>
                     else attempt)
      | PContainer txt \<Rightarrow> Inr (False, attempt)
      | _ \<Rightarrow> Inr (True, attempt))"
  by (cases v) (simp_all add: set_scorm_value_def set_scorm_value_body_def)

theorem set_lesson_status_cases_witness:
  "set_scorm_value (new_attempt 1 1 7 0) ''cmi.core.lesson_status'' (PStr ''completed'')
     = Inr (True, (new_attempt 1 1 7 0) \<lparr>lesson_status := ''completed''\<rparr>) \<and>
   set_scorm_value (new_attempt 1 1 7 0) ''cmi.core.lesson_status'' (PStr ''done'')
     = Inr (True, new_attempt 1 1 7 0)"
  using set_lesson_status_cases [of "new_attempt 1 1 7 0" "PStr ''completed''"]
    set_lesson_status_cases [of "new_attempt 1 1 7 0" "PStr ''done''"]
  by (simp add: status_choices_def)

lemma set_elements_no_prefix:
  "starts_with element ''cmi.interactions.'' \<or> starts_with element ''cmi.objectives.''
   \<Longrightarrow> element \<notin> set set_elements"
  by (auto simp: starts_with_def set_elements_def)

text \<open>
  C10. \<^verbatim>\<open>set_scorm_value\<close> returns a boolean for every attempt, element name and value: an
  exception of the body becomes the result false, with the attempt as it was. An
  element name outside the seven written ones, and so every \<^verbatim>\<open>cmi.interactions.\<close> and
  \<^verbatim>\<open>cmi.objectives.\<close> path, returns true and leaves the attempt as it was.
\<close>

theorem set_scorm_value_total:
  "(\<exists>b a'. set_scorm_value attempt element v = Inr (b, a')) \<and>
   (\<forall>e. set_scorm_value_body attempt element v = Inl e \<longrightarrow>
        set_scorm_value attempt element v = Inr (False, attempt)) \<and>
   (element \<notin> set set_elements \<longrightarrow>
        set_scorm_value attempt element v = Inr (True, attempt)) \<and>
   (starts_with element ''cmi.interactions.'' \<or> starts_with element ''cmi.objectives.'' \<longrightarrow>
        set_scorm_value attempt element v = Inr (True, attempt))"
proof -
  have total: "\<exists>b a'. set_scorm_value attempt element v = Inr (b, a')"
    by (cases "set_scorm_value_body attempt element v") (auto simp: set_scorm_value_def)
  have caught: "\<forall>e. set_scorm_value_body attempt element v = Inl e \<longrightarrow>
        set_scorm_value attempt element v = Inr (False, attempt)"
    by (simp add: set_scorm_value_def)
  have unknown: "set_scorm_value attempt element v = Inr (True, attempt)"
    if "element \<notin> set set_elements" for element
    using that by (simp add: set_scorm_value_def set_scorm_value_body_def set_elements_def)
  from total caught unknown set_elements_no_prefix show ?thesis by blast
qed

theorem set_scorm_value_total_witness:
  "set_scorm_value_body (new_attempt 1 1 7 0) ''cmi.core.score.raw'' PNone = Inl TypeError \<and>
   set_scorm_value (new_attempt 1 1 7 0) ''cmi.core.score.raw'' PNone
     = Inr (False, new_attempt 1 1 7 0) \<and>
   starts_with ''cmi.interactions.0.id'' ''cmi.interactions.'' \<and>
   ''cmi.interactions.0.id'' \<notin> set set_elements \<and>
   set_scorm_value (new_attempt 1 1 7 0) ''cmi.interactions.0.id'' (PStr ''q1'')
     = Inr (True, new_attempt 1 1 7 0)"
proof -
  have raised:
    "set_scorm_value_body (new_attempt 1 1 7 0) ''cmi.core.score.raw'' PNone = Inl TypeError"
    by (simp add: set_scorm_value_body_def set_float_field_def)
  have path: "starts_with ''cmi.interactions.0.id'' ''cmi.interactions.''"
    by (simp add: starts_with_def)
  have other: "''cmi.interactions.0.id'' \<notin> set set_elements"
    by (simp add: set_elements_def)
  from raised path other
    set_scorm_value_total [of "new_attempt 1 1 7 0" "''cmi.core.score.raw''" PNone]
    set_scorm_value_total [of "new_attempt 1 1 7 0" "''cmi.interactions.0.id''" "PStr ''q1''"]
  show ?thesis by blast
qed

section \<open>The progress summary\<close>

lemma num_gt_trans: "num_gt a b \<Longrightarrow> num_gt b c \<Longrightarrow> num_gt a c"
  by (auto simp: num_gt_def split: option.splits)

lemma num_gt_irrefl: "\<not> num_gt a a"
  by (auto simp: num_gt_def split: option.splits)

lemma num_gt_key: "num_key a = num_key a' \<Longrightarrow> num_gt a b = num_gt a' b"
  by (simp add: num_gt_def)

lemma falsy_key: "\<not> float_truthy raw \<Longrightarrow> num_key (NFloat raw) = num_key (NInt 0)"
  by (cases raw) (auto simp: float_truthy_def)

lemma greatest_initial: "greatest_score_or_zero (NInt 0) []"
  by (simp add: greatest_score_or_zero_def num_gt_irrefl)

lemma greatest_update:
  assumes "greatest_score_or_zero (best_score e) ys"
  shows "greatest_score_or_zero (best_score (progress_update a e)) (ys @ [a])"
proof (cases "score_raw a")
  case None
  with assms show ?thesis
    by (auto simp: greatest_score_or_zero_def progress_update_def score_or_zero_def)
next
  case (Some raw)
  show ?thesis
  proof (cases "float_truthy raw \<and> num_gt (NFloat raw) (best_score e)")
    case True
    then have gt: "num_gt (NFloat raw) (best_score e)" by simp
    have "\<not> num_gt s (NFloat raw)" if "\<not> num_gt s (best_score e)" for s
      using that gt num_gt_trans by blast
    with assms Some True show ?thesis
      by (auto simp: greatest_score_or_zero_def progress_update_def score_or_zero_def
          num_gt_irrefl)
  next
    case False
    have "\<not> num_gt (NFloat raw) (best_score e)"
    proof (cases "float_truthy raw")
      case True
      with False show ?thesis by simp
    next
      case f: False
      from assms have "\<not> num_gt (NInt 0) (best_score e)"
        by (simp add: greatest_score_or_zero_def)
      with num_gt_key [OF falsy_key [OF f]] show ?thesis by simp
    qed
    with assms Some False show ?thesis
      by (auto simp: greatest_score_or_zero_def progress_update_def score_or_zero_def)
  qed
qed

lemma progress_update_fields:
  "pe_package (progress_update a e) = pe_package e"
  "total_attempts (progress_update a e) = total_attempts e + 1"
  by (auto simp: progress_update_def Let_def split: option.splits)

lemma progress_step_keys:
  "map fst (progress_step d a) =
     (if package_id a \<in> set (map fst d) then map fst d else map fst d @ [package_id a])"
  by (auto simp: progress_step_def Let_def case_prod_unfold comp_def
      intro!: map_cong)

lemma progress_step_entry:
  assumes "(k, e) \<in> set (progress_step d a)"
  shows "(k \<noteq> package_id a \<and> (k, e) \<in> set d) \<or>
         (k = package_id a \<and>
          (\<exists>e0. e = progress_update a e0 \<and>
             ((k, e0) \<in> set d \<or>
              (k \<notin> set (map fst d) \<and>
               e0 = \<lparr> pe_package = k, latest_attempt = a,
                      total_attempts = 0, best_score = NInt 0 \<rparr>))))"
  using assms
  by (auto simp: progress_step_def Let_def split: if_splits)

lemma progress_loop_invariant:
  "distinct (map fst (foldl progress_step [] xs)) \<and>
   set (map fst (foldl progress_step [] xs)) = package_id ` set xs \<and>
   (\<forall>(k, e) \<in> set (foldl progress_step [] xs). entry_ok xs k e)"
proof (induction xs rule: rev_induct)
  case Nil
  show ?case by simp
next
  case (snoc a xs)
  let ?d = "foldl progress_step [] xs"
  from snoc have dist: "distinct (map fst ?d)"
    and keys: "set (map fst ?d) = package_id ` set xs"
    and ok: "\<And>k e. (k, e) \<in> set ?d \<Longrightarrow> entry_ok xs k e"
    by auto
  have step: "foldl progress_step [] (xs @ [a]) = progress_step ?d a" by simp
  have d1: "distinct (map fst (progress_step ?d a))"
    using dist by (simp add: progress_step_keys)
  have d2: "set (map fst (progress_step ?d a)) = package_id ` set (xs @ [a])"
    using keys by (auto simp: progress_step_keys)
  have d3: "entry_ok (xs @ [a]) k e" if "(k, e) \<in> set (progress_step ?d a)" for k e
  proof -
    from progress_step_entry [OF that] consider
      (other) "k \<noteq> package_id a" "(k, e) \<in> set ?d"
      | (old) e0 where "k = package_id a" "e = progress_update a e0" "(k, e0) \<in> set ?d"
      | (fresh) e0 where "k = package_id a" "e = progress_update a e0"
          "k \<notin> set (map fst ?d)"
          "e0 = \<lparr> pe_package = k, latest_attempt = a,
                   total_attempts = 0, best_score = NInt 0 \<rparr>"
      by blast
    then show ?thesis
    proof cases
      case other
      with ok [of k e] show ?thesis by (simp add: entry_ok_def)
    next
      case old
      from ok [OF old(3)] have "entry_ok xs k e0" .
      with old(1,2) greatest_update [of e0 "filter (\<lambda>a. package_id a = k) xs" a]
      show ?thesis by (simp add: entry_ok_def progress_update_fields)
    next
      case fresh
      from fresh(3) keys have none: "filter (\<lambda>a. package_id a = k) xs = []"
        by (auto simp: filter_empty_conv)
      from fresh(4) greatest_initial have "greatest_score_or_zero (best_score e0) []"
        by simp
      from greatest_update [OF this, of a] fresh none
      show ?thesis by (simp add: entry_ok_def progress_update_fields)
    qed
  qed
  from d1 d2 d3 show ?case unfolding step by blast
qed

lemma greatest_set_cong:
  "set ys = set zs \<Longrightarrow> greatest_score_or_zero b ys = greatest_score_or_zero b zs"
  by (simp add: greatest_score_or_zero_def)

lemma filter_user_attempts_desc:
  "filter (\<lambda>a. package_id a = k) (user_attempts_desc db usr)
     = sort_key (\<lambda>a. - int (started_at a)) (attempts_of db (user_pk usr) k)"
  by (simp add: user_attempts_desc_def attempts_of_def filter_sort)

text \<open>
  C9, amended. The progress view has one summary for each package the learner has an
  attempt on. Its attempt count is the number of the learner's attempts on the package.
  Its best score is the greatest among \<open>0\<close> and the raw scores of these attempts: it is
  \<open>0\<close> or one of the scores, and neither \<open>0\<close> nor any of the scores is greater.
\<close>

theorem progress_summary_per_package:
  "distinct (map pe_package (progress_data (user_scorm_progress db usr))) \<and>
   set (map pe_package (progress_data (user_scorm_progress db usr)))
     = package_id ` {a \<in> set (attempts db). user_id a = user_pk usr} \<and>
   (\<forall>e \<in> set (progress_data (user_scorm_progress db usr)).
      total_attempts e = length (attempts_of db (user_pk usr) (pe_package e)) \<and>
      greatest_score_or_zero (best_score e) (attempts_of db (user_pk usr) (pe_package e)))"
proof -
  let ?xs = "user_attempts_desc db usr"
  let ?d = "foldl progress_step [] ?xs"
  have data: "progress_data (user_scorm_progress db usr) = map snd ?d"
    by (simp add: user_scorm_progress_def Let_def)
  from progress_loop_invariant [of ?xs]
  have dist: "distinct (map fst ?d)"
    and keys: "set (map fst ?d) = package_id ` set ?xs"
    and ok: "\<And>k e. (k, e) \<in> set ?d \<Longrightarrow> entry_ok ?xs k e"
    by auto
  have pk: "map pe_package (map snd ?d) = map fst ?d"
    using ok by (auto simp: entry_ok_def)
  have users: "set ?xs = {a \<in> set (attempts db). user_id a = user_pk usr}"
    by (auto simp: user_attempts_desc_def)
  have each: "total_attempts e = length (attempts_of db (user_pk usr) (pe_package e)) \<and>
      greatest_score_or_zero (best_score e) (attempts_of db (user_pk usr) (pe_package e))"
    if "e \<in> set (map snd ?d)" for e
  proof -
    from that obtain k where "(k, e) \<in> set ?d" by auto
    from ok [OF this] have e: "entry_ok ?xs (pe_package e) e"
      by (simp add: entry_ok_def)
    have "set (filter (\<lambda>a. package_id a = pe_package e) ?xs)
        = set (attempts_of db (user_pk usr) (pe_package e))"
      by (simp add: filter_user_attempts_desc)
    from greatest_set_cong [OF this] e show ?thesis
      by (simp add: entry_ok_def filter_user_attempts_desc)
  qed
  have c1: "distinct (map pe_package (map snd ?d))"
    using dist by (simp only: pk)
  have c2: "set (map pe_package (map snd ?d))
      = package_id ` {a \<in> set (attempts db). user_id a = user_pk usr}"
    using keys users by (simp only: pk)
  from c1 c2 each show ?thesis unfolding data by blast
qed

theorem progress_summary_per_package_witness:
  "map pe_package (progress_data (user_scorm_progress example_scores_db example_user)) = [1] \<and>
   map total_attempts (progress_data (user_scorm_progress example_scores_db example_user))
     = [3] \<and>
   map best_score (progress_data (user_scorm_progress example_scores_db example_user))
     = [NFloat (Fin 85)] \<and>
   length (attempts_of example_scores_db 7 1) = 3 \<and>
   greatest_score_or_zero (NFloat (Fin 85)) (attempts_of example_scores_db 7 1)"
proof -
  have data: "progress_data (user_scorm_progress example_scores_db example_user)
      = [\<lparr> pe_package = 1, latest_attempt = new_attempt 4 1 7 9,
            total_attempts = 3, best_score = NFloat (Fin 85) \<rparr>]"
    by (simp add: user_scorm_progress_def user_attempts_desc_def example_scores_db_def
        example_user_def new_attempt_def progress_step_def progress_update_def
        float_truthy_def num_gt_def)
  have pk: "user_pk example_user = 7"
    by (simp add: example_user_def)
  from progress_summary_per_package [of example_scores_db example_user]
  show ?thesis unfolding data pk by simp
qed

text \<open>
  C9 as the specification states it: the best score is the greatest raw score of the
  learner's attempts on the package. The loop starts from \<open>0\<close>: for a learner whose only
  attempt has the raw score \<open>-5\<close> the best score is \<open>0\<close>.
\<close>

theorem best_score_counterexample:
  "map best_score (progress_data (user_scorm_progress example_progress_db example_user))
     = [NInt 0] \<and>
   map score_raw (attempts_of example_progress_db 7 1) = [Some (Fin (- 5))]"
  by (simp add: user_scorm_progress_def user_attempts_desc_def example_progress_db_def
      example_user_def new_attempt_def progress_step_def progress_update_def
      attempts_of_def float_truthy_def num_gt_def)

section \<open>Launching a package\<close>

lemma example_launch_first:
  "launch_scorm_package example_launch_db example_user 10 ''module-1'' =
     (Render \<lparr> ctx_package = example_package,
               ctx_attempt = (new_attempt 2 1 7 10) \<lparr>lesson_status := ''incomplete''\<rparr>,
               launch_url = ''/media/scorm_extracted/1/module-1/index.html'',
               attempt_count = 2 \<rparr>,
      example_launch_db
        \<lparr>attempts := attempts example_launch_db
             @ [(new_attempt 2 1 7 10) \<lparr>lesson_status := ''incomplete''\<rparr>],
         next_attempt_id := 3\<rparr>)"
  by (simp add: launch_scorm_package_def example_launch_db_def example_package_def
      example_user_def permitted_def existing_attempts_def get_or_create_def
      new_attempt_def Let_def)

text \<open>
  C2. The specification asks that a second launch, while an attempt is in progress,
  returns that attempt. The attempt a launch creates has the status \<^verbatim>\<open>incomplete\<close>, and
  the lookup of the next launch asks for \<^verbatim>\<open>not_attempted\<close>: with the attempt 1 in progress,
  a launch creates the attempt 2 and the launch after it the attempt 3.
\<close>

theorem launch_twice_creates_attempts:
  "launched_attempt (fst (launch_scorm_package example_launch_db example_user 10 ''module-1''))
     = Some 2 \<and>
   launched_attempt
     (fst (launch_scorm_package
        (snd (launch_scorm_package example_launch_db example_user 10 ''module-1''))
        example_user 20 ''module-1'')) = Some 3 \<and>
   map attempt_id (attempts (snd (launch_scorm_package
        (snd (launch_scorm_package example_launch_db example_user 10 ''module-1''))
        example_user 20 ''module-1''))) = [1, 2, 3]"
  unfolding example_launch_first
  by (simp add: launch_scorm_package_def example_launch_db_def example_package_def
      example_user_def permitted_def existing_attempts_def get_or_create_def
      new_attempt_def Let_def)

text \<open>
  C3 as the specification states it: with multiple attempts disallowed, any earlier
  attempt that is completed or passed makes launch refuse. The view looks at the most
  recent attempt only: with a completed attempt followed by one in progress it renders
  the player and adds an attempt.
\<close>

theorem launch_any_prior_counterexample:
  "\<not> allow_multiple_attempts (hd (packages example_policy_db)) \<and>
   map lesson_status (attempts example_policy_db) = [''completed'', ''incomplete''] \<and>
   launched_attempt (fst (launch_scorm_package example_policy_db example_user 10 ''module-1''))
     = Some 3 \<and>
   map attempt_id
     (attempts (snd (launch_scorm_package example_policy_db example_user 10 ''module-1'')))
     = [1, 2, 3]"
  by (simp add: launch_scorm_package_def example_policy_db_def example_package_def
      example_user_def permitted_def existing_attempts_def get_or_create_def
      new_attempt_def Let_def)

lemma set_existing_attempts:
  "set (existing_attempts db package usr)
     = {a \<in> set (attempts db). package_id a = pkg_id package \<and> user_id a = user_pk usr}"
  by (auto simp: existing_attempts_def)

lemma hd_existing_latest:
  assumes "existing_attempts db package usr \<noteq> []"
  shows "hd (existing_attempts db package usr) \<in> set (existing_attempts db package usr)"
    and "\<forall>a \<in> set (existing_attempts db package usr).
           started_at a \<le> started_at (hd (existing_attempts db package usr))"
proof -
  let ?k = "\<lambda>a. - int (started_at a)"
  let ?xs = "existing_attempts db package usr"
  from assms obtain x rest where cons: "?xs = x # rest" by (cases ?xs) auto
  have "sorted (map ?k ?xs)"
    unfolding existing_attempts_def by (rule sorted_sort_key)
  then have "\<forall>y \<in> set rest. ?k x \<le> ?k y"
    unfolding cons by simp
  then have "\<forall>y \<in> set (x # rest). started_at y \<le> started_at x"
    by auto
  then show "\<forall>a \<in> set ?xs. started_at a \<le> started_at (hd ?xs)"
    unfolding cons by simp
  show "hd ?xs \<in> set ?xs"
    unfolding cons by simp
qed

text \<open>
  C3, amended. For a ready package that the user may open and that disallows multiple
  attempts: when the most recent attempt of the user on the package is completed or
  passed, launch answers with the redirect and the database is as before, with no
  attempt created and none touched.
\<close>

theorem launch_refused_after_completion:
  assumes "find (\<lambda>p. slug p = slg \<and> status p = ''ready'') (packages db) = Some package"
    and "permitted usr package"
    and "\<not> allow_multiple_attempts package"
    and "latest \<in> set (attempts db)"
    and "package_id latest = pkg_id package \<and> user_id latest = user_pk usr"
    and "\<forall>a \<in> set (attempts db). package_id a = pkg_id package \<and> user_id a = user_pk usr
           \<and> a \<noteq> latest \<longrightarrow> started_at a < started_at latest"
    and "lesson_status latest \<in> {''completed'', ''passed''}"
  shows "launch_scorm_package db usr now slg = (Redirect slg, db)"
proof -
  let ?xs = "existing_attempts db package usr"
  from assms(4,5) have latest: "latest \<in> set ?xs"
    by (simp add: set_existing_attempts)
  then have ne: "?xs \<noteq> []" by auto
  from hd_existing_latest(1) [OF ne]
  have mem: "hd ?xs \<in> set (attempts db)" "package_id (hd ?xs) = pkg_id package"
    "user_id (hd ?xs) = user_pk usr"
    by (simp_all add: set_existing_attempts)
  from hd_existing_latest(2) [OF ne] latest
  have le: "started_at latest \<le> started_at (hd ?xs)" by blast
  have "hd ?xs = latest"
  proof (rule ccontr)
    assume "hd ?xs \<noteq> latest"
    with assms(6) mem have "started_at (hd ?xs) < started_at latest" by blast
    with le show False by simp
  qed
  with assms(1,2,3,7) ne show ?thesis
    by (simp add: launch_scorm_package_def)
qed

theorem launch_refused_after_completion_witness:
  "launch_scorm_package example_completed_db example_user 10 ''module-1''
     = (Redirect ''module-1'', example_completed_db)"
proof -
  let ?package = "example_package \<lparr>allow_multiple_attempts := False\<rparr>"
  let ?latest = "(new_attempt 2 1 7 5) \<lparr>lesson_status := ''passed''\<rparr>"
  have h1: "find (\<lambda>p. slug p = ''module-1'' \<and> status p = ''ready'')
      (packages example_completed_db) = Some ?package"
    by (simp add: example_completed_db_def example_package_def)
  have h2: "permitted example_user ?package"
    by (simp add: permitted_def example_user_def example_package_def)
  have h3: "\<not> allow_multiple_attempts ?package" by simp
  have h4: "?latest \<in> set (attempts example_completed_db)"
    by (simp add: example_completed_db_def)
  have h5: "package_id ?latest = pkg_id ?package \<and> user_id ?latest = user_pk example_user"
    by (simp add: new_attempt_def example_package_def example_user_def)
  have h6: "\<forall>a \<in> set (attempts example_completed_db).
      package_id a = pkg_id ?package \<and> user_id a = user_pk example_user \<and> a \<noteq> ?latest
        \<longrightarrow> started_at a < started_at ?latest"
    by (simp add: example_completed_db_def new_attempt_def)
  have h7: "lesson_status ?latest \<in> {''completed'', ''passed''}" by simp
  show ?thesis by (rule launch_refused_after_completion [OF h1 h2 h3 h4 h5 h6 h7])
qed

section \<open>Ingesting an archive\<close>










end
